theory Spec2Isabelle
  imports Main "HOL-Library.Word"
begin

unbundle bit_operations_syntax

section \<open>Python values used by app.py\<close>

text \<open>
  A Python \<open>str\<close> is the sequence of its Unicode code points, a \<open>bytes\<close> value the
  sequence of its octets. String literals of the program are written \<open>lit ''...''\<close>.
\<close>

type_synonym pystr = "nat list"
type_synonym bytes = "8 word list"

definition lit :: "string \<Rightarrow> pystr" where
  "lit s = map of_char s"

section \<open>Document fingerprinting (app.py, lines 99-111)\<close>

text \<open>
  \<open>hashlib\<close> is not part of the repository. A hash algorithm is a parameter: a function
  from the message octets to a digest of fixed width (\<open>256 word\<close> for SHA-256,
  \<open>128 word\<close> for MD5). A hash object is the message fed to it so far; \<open>hexdigest\<close> writes
  the digest as lowercase hexadecimal digits, most significant first, two per octet.
\<close>

definition hex_digit :: "nat \<Rightarrow> nat" where
  "hex_digit n = (if n < 10 then 48 + n else 87 + n)"

definition hex_of_word :: "'a::len word \<Rightarrow> pystr" where
  "hex_of_word w =
     map (\<lambda>i. hex_digit (unat (drop_bit (4 * i) w AND 15))) (rev [0..<LENGTH('a) div 4])"

definition hash_new :: "bytes" where
  "hash_new = []"

definition hash_update :: "bytes \<Rightarrow> bytes \<Rightarrow> bytes" where
  "hash_update h data = h @ data"

definition hash_hexdigest :: "(bytes \<Rightarrow> 'a::len word) \<Rightarrow> bytes \<Rightarrow> pystr" where
  "hash_hexdigest alg h = hex_of_word (alg h)"

text \<open>
  \<^verbatim>\<open>
  def hash_document(file_bytes: bytes) -> str:
      sha256 = hashlib.sha256()
      sha256.update(file_bytes)
      return '0x' + sha256.hexdigest()
  \<close>
\<close>

definition hash_document :: "(bytes \<Rightarrow> 256 word) \<Rightarrow> bytes \<Rightarrow> pystr" where
  "hash_document sha256 file_bytes =
     (let h = hash_new;
          h = hash_update h file_bytes
      in lit ''0x'' @ hash_hexdigest sha256 h)"

text \<open>
  \<^verbatim>\<open>
  def upload_to_ipfs(file_bytes: bytes, filename: str) -> str:
      file_hash = hashlib.md5(file_bytes).hexdigest()
      return f"Qm{file_hash[:44]}"
  \<close>
\<close>

definition upload_to_ipfs :: "(bytes \<Rightarrow> 128 word) \<Rightarrow> bytes \<Rightarrow> pystr \<Rightarrow> pystr" where
  "upload_to_ipfs md5 file_bytes filename =
     (let file_hash = hash_hexdigest md5 (hash_update hash_new file_bytes)
      in lit ''Qm'' @ take 44 file_hash)"

section \<open>Exceptions, the log and the calls that leave the process\<close>

text \<open>
  An exception is its class name and its message. Only subclasses of \<open>Exception\<close> are
  modelled, so \<open>except Exception\<close> and a bare \<open>except\<close> catch the same values.
\<close>

datatype py_exception = Exc string pystr

text \<open>
  One constructor for each f-string the module hands to \<open>logger\<close>:
  \<^item> \<open>ErrorCreatingSigningContract e\<close>: \<^verbatim>\<open>logger.error(f"Error creating signing contract: {e}")\<close>
  \<^item> \<open>ErrorSigningDocument e\<close>: \<^verbatim>\<open>logger.error(f"Error signing document: {e}")\<close>
  \<^item> \<open>ErrorGettingContractStatus e\<close>: \<^verbatim>\<open>logger.error(f"Error getting contract status: {e}")\<close>
  \<^item> \<open>WarningGettingInfo a e\<close>: \<^verbatim>\<open>logger.warning(f"Error getting info for contract {address}: {e}")\<close>
  \<^item> \<open>ErrorGettingUserContracts e\<close>: \<^verbatim>\<open>logger.error(f"Error getting user contracts: {e}")\<close>
\<close>

datatype log_record =
    ErrorCreatingSigningContract py_exception
  | ErrorSigningDocument py_exception
  | ErrorGettingContractStatus py_exception
  | WarningGettingInfo pystr py_exception
  | ErrorGettingUserContracts py_exception

text \<open>The two contract methods the module sends transactions to, with their arguments.\<close>

datatype contract_call =
    CreateSigningContract pystr pystr "pystr list" bool pystr pystr
  | SignDocument pystr

text \<open>The dictionary given to \<open>build_transaction\<close>.\<close>

record tx_params =
  tx_from :: pystr
  tx_nonce :: int
  tx_gas :: int
  tx_gasPrice :: int

text \<open>The read-only contract methods the module calls with \<open>.call()\<close>.\<close>

datatype getter =
    GetSignatures
  | IsFullySigned
  | GetRequiredSigners
  | GetSigningProgress
  | Status
  | DocumentHash
  | IpfsCid
  | GetContractsByInitiator pystr
  | GetContractInfo pystr

text \<open>
  Every request the module makes of the node or of the signing library is recorded, in
  order, as an effect: the trace shows what was built, signed, broadcast, awaited and read.
\<close>

datatype effect =
    GetTransactionCount pystr
  | BuildTransaction pystr contract_call tx_params
  | SignTransaction
  | SendRawTransaction bytes
  | WaitForTransactionReceipt bytes
  | Call pystr getter

text \<open>
  What the page shows, one constructor for each message of the create-contract handler:
  \<^item> \<open>PleaseUploadDocument\<close>, \<open>PleaseEnterPrivateKey\<close>, \<open>PleaseAddSigner\<close>: the three
    \<open>st.error\<close> calls of lines 335-339
  \<^item> \<open>ErrorCreatingContract e\<close>: \<^verbatim>\<open>st.error(f"... Error creating contract: {str(e)}")\<close>
  \<^item> \<open>ContractCreated\<close>: the \<open>st.success\<close> of line 366
  \<^item> \<open>InfoContractAddress\<close>, \<open>InfoDocumentHash\<close>, \<open>InfoIpfsCid\<close>: the \<open>st.info\<close> calls
    of lines 367-369
\<close>

datatype ui_message =
    PleaseUploadDocument
  | PleaseEnterPrivateKey
  | PleaseAddSigner
  | ErrorCreatingContract py_exception
  | ContractCreated
  | InfoContractAddress pystr
  | InfoDocumentHash pystr
  | InfoIpfsCid pystr

text \<open>
  The state threaded through the module: the trace of effects, the log, the messages
  shown and \<open>st.session_state.last_contract\<close>.
\<close>

record state =
  effects :: "effect list"
  logged :: "log_record list"
  shown :: "ui_message list"
  last_contract :: "pystr option"

type_synonym 'a prog = "state \<Rightarrow> (py_exception + 'a) \<times> state"

definition ret :: "'a \<Rightarrow> 'a prog" where
  "ret x s = (Inr x, s)"

definition throw :: "py_exception \<Rightarrow> 'a prog" where
  "throw e s = (Inl e, s)"

definition pbind :: "'a prog \<Rightarrow> ('a \<Rightarrow> 'b prog) \<Rightarrow> 'b prog" where
  "pbind m f s = (case m s of (Inl e, s') \<Rightarrow> (Inl e, s') | (Inr x, s') \<Rightarrow> f x s')"

definition try_except :: "'a prog \<Rightarrow> (py_exception \<Rightarrow> 'a prog) \<Rightarrow> 'a prog" where
  "try_except m h s = (case m s of (Inl e, s') \<Rightarrow> h e s' | (Inr x, s') \<Rightarrow> (Inr x, s'))"

definition local_call :: "py_exception + 'a \<Rightarrow> 'a prog" where
  "local_call r s = (r, s)"

definition perform :: "effect \<Rightarrow> py_exception + 'a \<Rightarrow> 'a prog" where
  "perform ev r s = (r, s\<lparr>effects := effects s @ [ev]\<rparr>)"

definition logger :: "log_record \<Rightarrow> unit prog" where
  "logger entry s = (Inr (), s\<lparr>logged := logged s @ [entry]\<rparr>)"

definition show_message :: "ui_message \<Rightarrow> unit prog" where
  "show_message m s = (Inr (), s\<lparr>shown := shown s @ [m]\<rparr>)"

definition set_last_contract :: "pystr \<Rightarrow> unit prog" where
  "set_last_contract a s = (Inr (), s\<lparr>last_contract := Some a\<rparr>)"

definition init_state :: state where
  "init_state = \<lparr>effects = [], logged = [], shown = [], last_contract = None\<rparr>"

section \<open>Configuration and the external collaborators\<close>

text \<open>
  \<open>config.factory_address\<close> is \<open>os.getenv(...)\<close>: \<open>None\<close> or a string. The test
  \<open>not config.factory_address\<close> holds for \<open>None\<close> and for the empty string.
\<close>

record config =
  factory_address :: "pystr option"

datatype abi = FACTORY_ABI | SIGNER_ABI

text \<open>
  Modelled from the spec: the ABI files are not in the repository; the shapes of the
  contract getters' results are those of section 6 of the specification. A signature
  entry is \<open>(signer, timestamp, *, metadata)\<close>; the contract information is a tuple
  with positions \<open>[*, documentHash, storagePointer, *, createdAt, isActive, title]\<close>,
  read by the module at indices 1, 2, 4, 5 and 6; \<open>getSigningProgress()\<close> returns the
  pair \<open>(signedCount, totalSigners)\<close>, read at indices 0 and 1, and \<open>status()\<close> an
  integer code.
\<close>

record signature_entry =
  sig_signer :: pystr
  sig_timestamp :: int
  sig_2 :: pystr
  sig_metadata :: pystr

record contract_info =
  info_0 :: pystr
  info_1 :: pystr
  info_2 :: pystr
  info_3 :: pystr
  info_4 :: int
  info_5 :: bool
  info_6 :: pystr

text \<open>
  The node, web3 and eth_account are parameters: one response function for each call the
  module makes, each returning the exception it raises or its value. \<open>'tx\<close> is the
  transaction dictionary web3 builds, \<open>'log\<close> a log entry of a receipt.
  \<^item> \<open>from_key k\<close>: \<open>Account.from_key(k).address\<close>
  \<^item> \<open>eth_contract a abi\<close>: \<open>w3.eth.contract(address=a, abi=abi)\<close>
  \<^item> \<open>contract_function a c\<close>: \<open>contract.functions.f(args)\<close>, the bound call
  \<^item> \<open>sign_transaction t k\<close>: \<open>w3.eth.account.sign_transaction(t, k).rawTransaction\<close>
  \<^item> \<open>wait_for_transaction_receipt h\<close>: \<open>w3.eth.wait_for_transaction_receipt(h).logs\<close>
  \<^item> \<open>process_log a l\<close>:
    \<open>factory.events.ContractCreated().processLog(l).args.contractAddress\<close>
  \<^item> \<open>hexbytes_hex h\<close>: \<open>h.hex()\<close>
  \<^item> \<open>call_X a\<close>: \<open>contract.functions.X().call()\<close> on the contract at \<open>a\<close>
\<close>

record ('tx, 'log) chain =
  from_key :: "pystr \<Rightarrow> py_exception + pystr"
  eth_contract :: "pystr \<Rightarrow> abi \<Rightarrow> py_exception + unit"
  contract_function :: "pystr \<Rightarrow> contract_call \<Rightarrow> py_exception + unit"
  get_transaction_count :: "pystr \<Rightarrow> py_exception + int"
  build_transaction :: "pystr \<Rightarrow> contract_call \<Rightarrow> tx_params \<Rightarrow> py_exception + 'tx"
  sign_transaction :: "'tx \<Rightarrow> pystr \<Rightarrow> py_exception + bytes"
  send_raw_transaction :: "bytes \<Rightarrow> py_exception + bytes"
  wait_for_transaction_receipt :: "bytes \<Rightarrow> py_exception + 'log list"
  process_log :: "pystr \<Rightarrow> 'log \<Rightarrow> py_exception + pystr"
  hexbytes_hex :: "bytes \<Rightarrow> pystr"
  call_getSignatures :: "pystr \<Rightarrow> py_exception + signature_entry list"
  call_isFullySigned :: "pystr \<Rightarrow> py_exception + bool"
  call_getRequiredSigners :: "pystr \<Rightarrow> py_exception + pystr list"
  call_getSigningProgress :: "pystr \<Rightarrow> py_exception + int \<times> int"
  call_status :: "pystr \<Rightarrow> py_exception + int"
  call_documentHash :: "pystr \<Rightarrow> py_exception + pystr"
  call_ipfsCid :: "pystr \<Rightarrow> py_exception + pystr"
  call_getContractsByInitiator :: "pystr \<Rightarrow> pystr \<Rightarrow> py_exception + pystr list"
  call_getContractInfo :: "pystr \<Rightarrow> pystr \<Rightarrow> py_exception + contract_info"

text \<open>\<open>w3.to_wei(n, 'gwei')\<close>: one gwei is \<open>10 ^ 9\<close> wei.\<close>

definition to_wei_gwei :: "int \<Rightarrow> int" where
  "to_wei_gwei n = n * 10 ^ 9"

section \<open>Creating a signing contract (app.py, lines 113-162)\<close>

text \<open>
  The loop over the receipt's logs, which only decodes (no request leaves the process):
  a log that fails to decode is skipped, the first that decodes ends the function.
  \<^verbatim>\<open>
  for log in tx_receipt.logs:
      try:
          decoded_log = factory.events.ContractCreated().processLog(log)
          return decoded_log.args.contractAddress
      except:
          continue
  raise ValueError("Could not find ContractCreated event in transaction receipt")
  \<close>
\<close>

definition creation_event_not_found :: py_exception where
  "creation_event_not_found =
     Exc ''ValueError'' (lit ''Could not find ContractCreated event in transaction receipt'')"

definition factory_not_configured :: py_exception where
  "factory_not_configured = Exc ''ValueError'' (lit ''Factory address not configured'')"

fun scan_logs :: "('log \<Rightarrow> py_exception + pystr) \<Rightarrow> 'log list \<Rightarrow> py_exception + pystr" where
  "scan_logs decode [] = Inl creation_event_not_found"
| "scan_logs decode (log # logs) =
     (case decode log of
        Inr contractAddress \<Rightarrow> Inr contractAddress
      | Inl _ \<Rightarrow> scan_logs decode logs)"

definition create_signing_contract ::
  "config \<Rightarrow> ('tx, 'log) chain \<Rightarrow> pystr \<Rightarrow> pystr \<Rightarrow> pystr list \<Rightarrow> pystr \<Rightarrow> pystr \<Rightarrow> pystr
     \<Rightarrow> bool \<Rightarrow> pystr prog" where
  "create_signing_contract cfg w3 document_hash ipfs_cid signers private_key title
       description sequential_signing =
     try_except
       (case factory_address cfg of
          None \<Rightarrow> throw factory_not_configured
        | Some factory \<Rightarrow>
            if factory = [] then throw factory_not_configured
            else
              pbind (local_call (from_key w3 private_key)) (\<lambda>account_address.
              pbind (local_call (eth_contract w3 factory FACTORY_ABI)) (\<lambda>_.
              let call = CreateSigningContract document_hash ipfs_cid signers
                           sequential_signing title description in
              pbind (local_call (contract_function w3 factory call)) (\<lambda>_.
              pbind (perform (GetTransactionCount account_address)
                       (get_transaction_count w3 account_address)) (\<lambda>nonce.
              let params = \<lparr>tx_from = account_address, tx_nonce = nonce, tx_gas = 3000000,
                             tx_gasPrice = to_wei_gwei 20\<rparr> in
              pbind (perform (BuildTransaction factory call params)
                       (build_transaction w3 factory call params)) (\<lambda>txn.
              pbind (perform SignTransaction (sign_transaction w3 txn private_key)) (\<lambda>raw.
              pbind (perform (SendRawTransaction raw) (send_raw_transaction w3 raw)) (\<lambda>tx_hash.
              pbind (perform (WaitForTransactionReceipt tx_hash)
                       (wait_for_transaction_receipt w3 tx_hash)) (\<lambda>logs.
              local_call (scan_logs (process_log w3 factory) logs))))))))))
       (\<lambda>e. pbind (logger (ErrorCreatingSigningContract e)) (\<lambda>_. throw e))"

section \<open>Signing a document (app.py, lines 164-187)\<close>

definition sign_document :: "('tx, 'log) chain \<Rightarrow> pystr \<Rightarrow> pystr \<Rightarrow> pystr \<Rightarrow> pystr prog" where
  "sign_document w3 contract_address private_key metadata =
     try_except
       (pbind (local_call (from_key w3 private_key)) (\<lambda>account_address.
        pbind (local_call (eth_contract w3 contract_address SIGNER_ABI)) (\<lambda>_.
        let call = SignDocument metadata in
        pbind (local_call (contract_function w3 contract_address call)) (\<lambda>_.
        pbind (perform (GetTransactionCount account_address)
                 (get_transaction_count w3 account_address)) (\<lambda>nonce.
        let params = \<lparr>tx_from = account_address, tx_nonce = nonce, tx_gas = 200000,
                       tx_gasPrice = to_wei_gwei 20\<rparr> in
        pbind (perform (BuildTransaction contract_address call params)
                 (build_transaction w3 contract_address call params)) (\<lambda>txn.
        pbind (perform SignTransaction (sign_transaction w3 txn private_key)) (\<lambda>raw.
        pbind (perform (SendRawTransaction raw) (send_raw_transaction w3 raw)) (\<lambda>tx_hash.
        pbind (perform (WaitForTransactionReceipt tx_hash)
                 (wait_for_transaction_receipt w3 tx_hash)) (\<lambda>_.
        ret (hexbytes_hex w3 tx_hash))))))))))
       (\<lambda>e. pbind (logger (ErrorSigningDocument e)) (\<lambda>_. throw e))"

section \<open>Reading a contract's status (app.py, lines 189-219)\<close>

text \<open>
  Python indexing of a list: a negative index counts from the end, an index out of range
  raises \<open>IndexError\<close>.
\<close>

definition py_index :: "'a list \<Rightarrow> int \<Rightarrow> py_exception + 'a" where
  "py_index xs i =
     (if 0 \<le> i \<and> i < int (length xs) then Inr (xs ! nat i)
      else if i < 0 \<and> - int (length xs) \<le> i then Inr (xs ! nat (int (length xs) + i))
      else Inl (Exc ''IndexError'' (lit ''list index out of range'')))"

definition status_names :: "pystr list" where
  "status_names = [lit ''INITIATED'', lit ''IN_PROGRESS'', lit ''COMPLETED'', lit ''CANCELLED'']"

text \<open>
  The expression of line 212:
  \<^verbatim>\<open>status_names[status] if status < len(status_names) else "UNKNOWN"\<close>
\<close>

definition status_name :: "int \<Rightarrow> py_exception + pystr" where
  "status_name status =
     (if status < int (length status_names) then py_index status_names status
      else Inr (lit ''UNKNOWN''))"

text \<open>The dictionary \<open>get_contract_status\<close> returns, one field for each key.\<close>

record status_snapshot =
  s_signatures :: "signature_entry list"
  s_is_fully_signed :: bool
  s_required_signers :: "pystr list"
  s_signed_count :: int
  s_total_signers :: int
  s_status :: pystr
  s_document_hash :: pystr
  s_ipfs_cid :: pystr

definition get_contract_status :: "('tx, 'log) chain \<Rightarrow> pystr \<Rightarrow> status_snapshot prog" where
  "get_contract_status w3 contract_address =
     try_except
       (pbind (local_call (eth_contract w3 contract_address SIGNER_ABI)) (\<lambda>_.
        pbind (perform (Call contract_address GetSignatures)
                 (call_getSignatures w3 contract_address)) (\<lambda>signatures.
        pbind (perform (Call contract_address IsFullySigned)
                 (call_isFullySigned w3 contract_address)) (\<lambda>is_fully_signed.
        pbind (perform (Call contract_address GetRequiredSigners)
                 (call_getRequiredSigners w3 contract_address)) (\<lambda>required_signers.
        pbind (perform (Call contract_address GetSigningProgress)
                 (call_getSigningProgress w3 contract_address)) (\<lambda>progress.
        pbind (perform (Call contract_address Status)
                 (call_status w3 contract_address)) (\<lambda>status.
        pbind (perform (Call contract_address DocumentHash)
                 (call_documentHash w3 contract_address)) (\<lambda>document_hash.
        pbind (perform (Call contract_address IpfsCid)
                 (call_ipfsCid w3 contract_address)) (\<lambda>ipfs_cid.
        pbind (local_call (status_name status)) (\<lambda>name.
        ret \<lparr>s_signatures = signatures,
             s_is_fully_signed = is_fully_signed,
             s_required_signers = required_signers,
             s_signed_count = fst progress,
             s_total_signers = snd progress,
             s_status = name,
             s_document_hash = document_hash,
             s_ipfs_cid = ipfs_cid\<rparr>))))))))))
       (\<lambda>e. pbind (logger (ErrorGettingContractStatus e)) (\<lambda>_. throw e))"

section \<open>Listing an initiator's contracts (app.py, lines 221-254)\<close>

text \<open>\<open>str(n)\<close> for an integer, as the f-string of line 244 formats it.\<close>

fun nat_digits :: "nat \<Rightarrow> pystr" where
  "nat_digits n = (if n < 10 then [48 + n] else nat_digits (n div 10) @ [48 + n mod 10])"

declare nat_digits.simps [simp del]

definition py_str_int :: "int \<Rightarrow> pystr" where
  "py_str_int i = (if i < 0 then 45 # nat_digits (nat (- i)) else nat_digits (nat i))"

text \<open>The dictionary appended for each contract, one field for each key.\<close>

record contract_entry =
  c_address :: pystr
  c_title :: pystr
  c_document_hash :: pystr
  c_ipfs_cid :: pystr
  c_created_at :: int
  c_is_active :: bool
  c_status :: pystr
  c_progress :: pystr

text \<open>
  The dictionary literal of lines 236-245, and the body of the inner \<open>try\<close>: the two
  reads and the dictionary built from them.
\<close>

definition make_entry :: "pystr \<Rightarrow> contract_info \<Rightarrow> status_snapshot \<Rightarrow> contract_entry" where
  "make_entry address contract_info status_info =
     \<lparr>c_address = address,
      c_title = info_6 contract_info,
      c_document_hash = info_1 contract_info,
      c_ipfs_cid = info_2 contract_info,
      c_created_at = info_4 contract_info,
      c_is_active = info_5 contract_info,
      c_status = s_status status_info,
      c_progress = py_str_int (s_signed_count status_info) @ lit ''/''
                     @ py_str_int (s_total_signers status_info)\<rparr>"

definition enrich :: "('tx, 'log) chain \<Rightarrow> pystr \<Rightarrow> pystr \<Rightarrow> contract_entry prog" where
  "enrich w3 factory address =
     pbind (perform (Call factory (GetContractInfo address))
              (call_getContractInfo w3 factory address)) (\<lambda>contract_info.
     pbind (get_contract_status w3 address) (\<lambda>status_info.
     ret (make_entry address contract_info status_info)))"

text \<open>
  The loop \<open>for address in contract_addresses\<close>, with the list \<open>contracts\<close> built so
  far: a failure of the body is logged as a warning and the loop continues.
\<close>

fun enrich_loop ::
  "('tx, 'log) chain \<Rightarrow> pystr \<Rightarrow> pystr list \<Rightarrow> contract_entry list \<Rightarrow> contract_entry list prog"
  where
  "enrich_loop w3 factory [] contracts = ret contracts"
| "enrich_loop w3 factory (address # rest) contracts =
     pbind (try_except
              (pbind (enrich w3 factory address) (\<lambda>entry. ret (contracts @ [entry])))
              (\<lambda>e. pbind (logger (WarningGettingInfo address e)) (\<lambda>_. ret contracts)))
       (\<lambda>contracts'. enrich_loop w3 factory rest contracts')"

definition get_user_contracts ::
  "config \<Rightarrow> ('tx, 'log) chain \<Rightarrow> pystr \<Rightarrow> contract_entry list prog" where
  "get_user_contracts cfg w3 user_address =
     try_except
       (case factory_address cfg of
          None \<Rightarrow> ret []
        | Some factory \<Rightarrow>
            if factory = [] then ret []
            else
              pbind (local_call (eth_contract w3 factory FACTORY_ABI)) (\<lambda>_.
              pbind (perform (Call factory (GetContractsByInitiator user_address))
                       (call_getContractsByInitiator w3 factory user_address))
                (\<lambda>contract_addresses.
              enrich_loop w3 factory contract_addresses [])))
       (\<lambda>e. pbind (logger (ErrorGettingUserContracts e)) (\<lambda>_. ret []))"

section \<open>The required signers of a new contract (app.py, lines 349-353)\<close>

text \<open>
  \<open>str.isspace\<close> on one code point (CPython's whitespace table) and \<open>str.strip()\<close>,
  which removes the whitespace at both ends.
\<close>

definition py_isspace :: "nat \<Rightarrow> bool" where
  "py_isspace c =
     ((9 \<le> c \<and> c \<le> 13) \<or> (28 \<le> c \<and> c \<le> 32) \<or> c = 133 \<or> c = 160 \<or> c = 5760
      \<or> (8192 \<le> c \<and> c \<le> 8202) \<or> c = 8232 \<or> c = 8233 \<or> c = 8239 \<or> c = 8287
      \<or> c = 12288)"

definition py_strip :: "pystr \<Rightarrow> pystr" where
  "py_strip s = rev (dropWhile py_isspace (rev (dropWhile py_isspace s)))"

text \<open>
  A \<open>dict\<close> keeps its keys in insertion order; assigning to a key that is present keeps
  the key's place. \<open>dict.fromkeys(ks)\<close> assigns \<open>None\<close> to each key in turn and \<open>list(d)\<close>
  lists the keys.
\<close>

fun dict_setitem :: "('k \<times> 'v) list \<Rightarrow> 'k \<Rightarrow> 'v \<Rightarrow> ('k \<times> 'v) list" where
  "dict_setitem [] k v = [(k, v)]"
| "dict_setitem ((k', v') # d) k v =
     (if k' = k then (k', v) # d else (k', v') # dict_setitem d k v)"

definition dict_fromkeys :: "'k list \<Rightarrow> ('k \<times> unit) list" where
  "dict_fromkeys ks = foldl (\<lambda>d k. dict_setitem d k ()) [] ks"

definition dict_keys :: "('k \<times> 'v) list \<Rightarrow> 'k list" where
  "dict_keys d = map fst d"

text \<open>
  \<^verbatim>\<open>
  required_signers = [initiator_address] + [s for s in st.session_state.signers if s.strip()]
  required_signers = list(dict.fromkeys(required_signers))
  \<close>
\<close>

definition required_signers_of :: "pystr \<Rightarrow> pystr list \<Rightarrow> pystr list" where
  "required_signers_of initiator_address signers =
     (let required_signers = [initiator_address] @ filter (\<lambda>s. py_strip s \<noteq> []) signers
      in dict_keys (dict_fromkeys required_signers))"

section \<open>The create-contract handler (app.py, lines 333-375)\<close>

text \<open>
  The uploaded file is absent or has a name and a content; \<open>any(signers)\<close> holds when
  some entry is a non-empty string.
\<close>

definition create_contract_clicked ::
  "(bytes \<Rightarrow> 256 word) \<Rightarrow> (bytes \<Rightarrow> 128 word) \<Rightarrow> config \<Rightarrow> ('tx, 'log) chain
     \<Rightarrow> (pystr \<times> bytes) option \<Rightarrow> pystr \<Rightarrow> pystr list \<Rightarrow> pystr \<Rightarrow> pystr \<Rightarrow> bool
     \<Rightarrow> unit prog" where
  "create_contract_clicked sha256 md5 cfg w3 uploaded_file initiator_key signers title
       description sequential_signing =
     (case uploaded_file of
        None \<Rightarrow> show_message PleaseUploadDocument
      | Some (name, content) \<Rightarrow>
          if initiator_key = [] then show_message PleaseEnterPrivateKey
          else if \<not> list_ex (\<lambda>s. s \<noteq> []) signers then show_message PleaseAddSigner
          else
            try_except
              (let file_bytes = content;
                   document_hash = hash_document sha256 file_bytes;
                   ipfs_cid = upload_to_ipfs md5 file_bytes name in
               pbind (local_call (from_key w3 initiator_key)) (\<lambda>initiator_address.
               let required_signers = required_signers_of initiator_address signers in
               pbind (create_signing_contract cfg w3 document_hash ipfs_cid required_signers
                        initiator_key title description sequential_signing)
                 (\<lambda>contract_address.
               pbind (show_message ContractCreated) (\<lambda>_.
               pbind (show_message (InfoContractAddress contract_address)) (\<lambda>_.
               pbind (show_message (InfoDocumentHash document_hash)) (\<lambda>_.
               pbind (show_message (InfoIpfsCid ipfs_cid)) (\<lambda>_.
               set_last_contract contract_address)))))))
              (\<lambda>e. show_message (ErrorCreatingContract e)))"

text \<open>
  The specification's words: a list reduced to the first occurrence of each element, and
  the initiator followed by the non-empty caller-supplied addresses, so reduced.
\<close>

fun first_occurrences :: "'a list \<Rightarrow> 'a list \<Rightarrow> 'a list" where
  "first_occurrences seen [] = []"
| "first_occurrences seen (x # xs) =
     (if x \<in> set seen then first_occurrences seen xs
      else x # first_occurrences (x # seen) xs)"

definition spec_required_signers :: "pystr \<Rightarrow> pystr list \<Rightarrow> pystr list" where
  "spec_required_signers initiator_address signers =
     first_occurrences [] (initiator_address # filter (\<lambda>s. s \<noteq> []) signers)"

section \<open>Notions the properties are stated with\<close>

text \<open>The broadcasts in a trace: the \<open>send_raw_transaction\<close> requests.\<close>

definition is_broadcast :: "effect \<Rightarrow> bool" where
  "is_broadcast ev = (case ev of SendRawTransaction _ \<Rightarrow> True | _ \<Rightarrow> False)"

definition broadcasts :: "effect list \<Rightarrow> nat" where
  "broadcasts evs = length (filter is_broadcast evs)"

text \<open>The signer lists handed to \<open>createSigningContract\<close> in a trace.\<close>

fun submitted_signers :: "effect list \<Rightarrow> pystr list list" where
  "submitted_signers [] = []"
| "submitted_signers (BuildTransaction _ (CreateSigningContract _ _ signers _ _ _) _ # evs) =
     signers # submitted_signers evs"
| "submitted_signers (_ # evs) = submitted_signers evs"

text \<open>A factory address is configured when \<open>config.factory_address\<close> is truthy.\<close>

definition factory_configured :: "config \<Rightarrow> bool" where
  "factory_configured cfg = (case factory_address cfg of None \<Rightarrow> False | Some a \<Rightarrow> a \<noteq> [])"

text \<open>The addresses named by the warnings of a log.\<close>

fun warned_addresses :: "log_record list \<Rightarrow> pystr list" where
  "warned_addresses [] = []"
| "warned_addresses (WarningGettingInfo a _ # rs) = a # warned_addresses rs"
| "warned_addresses (_ # rs) = warned_addresses rs"

text \<open>
  What \<open>get_contract_status\<close> returns or raises for an address, and the enrichment of an
  address as the specification words it: the contract information and the status snapshot
  both obtained, combined into one entry.
\<close>

definition returned_status :: "('tx, 'log) chain \<Rightarrow> pystr \<Rightarrow> py_exception + status_snapshot" where
  "returned_status w3 address = fst (get_contract_status w3 address init_state)"

definition enrichment :: "('tx, 'log) chain \<Rightarrow> pystr \<Rightarrow> pystr \<Rightarrow> contract_entry option" where
  "enrichment w3 factory address =
     (case call_getContractInfo w3 factory address of
        Inl _ \<Rightarrow> None
      | Inr contract_info \<Rightarrow>
          (case returned_status w3 address of
             Inl _ \<Rightarrow> None
           | Inr status_info \<Rightarrow> Some (make_entry address contract_info status_info)))"

text \<open>The invariant of a status snapshot, and the same relations on the getters' values.\<close>

definition snapshot_invariant :: "status_snapshot \<Rightarrow> bool" where
  "snapshot_invariant snap =
     (s_signed_count snap = int (length (s_signatures snap))
      \<and> s_signed_count snap \<le> s_total_signers snap
      \<and> s_is_fully_signed snap = (s_signed_count snap = s_total_signers snap))"

definition getters_consistent :: "signature_entry list \<Rightarrow> bool \<Rightarrow> int \<times> int \<Rightarrow> bool" where
  "getters_consistent signatures is_fully_signed progress =
     (fst progress = int (length signatures)
      \<and> fst progress \<le> snd progress
      \<and> is_fully_signed = (fst progress = snd progress))"

section \<open>An example chain\<close>

text \<open>
  A node on which every request succeeds: the receipt of a creation has an unrelated log
  (\<open>0\<close>) before the creation log (\<open>1\<close>), the initiator has three contracts, and the
  information of the second cannot be read.
\<close>

definition demo_config :: config where
  "demo_config = \<lparr>factory_address = Some (lit ''0xF'')\<rparr>"

definition demo_chain :: "(unit, nat) chain" where
  "demo_chain =
     \<lparr>from_key = (\<lambda>k. Inr (lit ''0xA'')),
      eth_contract = (\<lambda>a abi. Inr ()),
      contract_function = (\<lambda>a c. Inr ()),
      get_transaction_count = (\<lambda>a. Inr 0),
      build_transaction = (\<lambda>a c p. Inr ()),
      sign_transaction = (\<lambda>t k. Inr [1]),
      send_raw_transaction = (\<lambda>raw. Inr [2]),
      wait_for_transaction_receipt = (\<lambda>h. Inr [0, 1]),
      process_log = (\<lambda>a l. if l = 1 then Inr (lit ''0xC'') else Inl (Exc ''MismatchedABI'' [])),
      hexbytes_hex = (\<lambda>h. lit ''0x02''),
      call_getSignatures = (\<lambda>a. Inr []),
      call_isFullySigned = (\<lambda>a. Inr False),
      call_getRequiredSigners = (\<lambda>a. Inr [lit ''0xA'', lit ''0xB'']),
      call_getSigningProgress = (\<lambda>a. Inr (0, 2)),
      call_status = (\<lambda>a. Inr 0),
      call_documentHash = (\<lambda>a. Inr (lit ''0x00'')),
      call_ipfsCid = (\<lambda>a. Inr (lit ''Qm'')),
      call_getContractsByInitiator = (\<lambda>f u. Inr [lit ''0x1'', lit ''0x2'', lit ''0x3'']),
      call_getContractInfo =
        (\<lambda>f a. if a = lit ''0x2'' then Inl (Exc ''ContractLogicError'' [])
               else Inr \<lparr>info_0 = a, info_1 = lit ''0x00'', info_2 = lit ''Qm'',
                         info_3 = lit ''0xA'', info_4 = 1700000000, info_5 = True,
                         info_6 = lit ''Deed''\<rparr>)\<rparr>"

definition lower_hex_digits :: "nat set" where
  "lower_hex_digits = set (lit ''0123456789abcdef'')"

section \<open>Properties of the fingerprinting functions\<close>

lemma lower_hex_digits_eq: "lower_hex_digits = {48..57} \<union> {97..102}"
  unfolding lower_hex_digits_def lit_def by (rule set_eqI) (simp, arith)

lemma hex_digit_lower: "n < 16 \<Longrightarrow> hex_digit n \<in> lower_hex_digits"
  by (simp add: hex_digit_def lower_hex_digits_eq)

lemma nibble_bound: "unat ((w :: 'a::len word) AND 15) < 16"
proof -
  have "w AND 15 = take_bit 4 w"
    by (simp add: take_bit_eq_mask mask_eq_exp_minus_1)
  then have "unat (w AND 15) = take_bit 4 (unat w)"
    by (simp add: unsigned_take_bit_eq)
  also have "\<dots> < 2 ^ 4" by (rule take_bit_nat_less_exp)
  finally show ?thesis by simp
qed

lemma length_hex_of_word: "length (hex_of_word (w :: 'a::len word)) = LENGTH('a) div 4"
  by (simp add: hex_of_word_def)

lemma set_hex_of_word: "set (hex_of_word w) \<subseteq> lower_hex_digits"
  by (auto simp: hex_of_word_def intro: hex_digit_lower nibble_bound)

text \<open>
  C6. For every byte sequence \<open>b\<close>, \<open>hash_document b\<close> is a function of the raw octets
  alone: it is \<open>'0x'\<close> followed by the hexadecimal digest that the SHA-256 parameter gives
  for exactly \<open>b\<close>; that digest text has 64 characters, all of them lowercase hexadecimal
  digits, so the content hash has 66 characters.
\<close>

theorem hash_document_hex_sha256:
  "hash_document sha256 b = lit ''0x'' @ hex_of_word (sha256 b)
   \<and> length (hash_document sha256 b) = 66
   \<and> take 2 (hash_document sha256 b) = lit ''0x''
   \<and> set (drop 2 (hash_document sha256 b)) \<subseteq> lower_hex_digits"
  by (simp add: hash_document_def hash_new_def hash_update_def hash_hexdigest_def
      length_hex_of_word set_hex_of_word lit_def)

text \<open>
  C9. For every byte sequence \<open>b\<close> and all filenames \<open>f1\<close>, \<open>f2\<close>, \<open>upload_to_ipfs\<close> returns
  the same pointer: \<open>'Qm'\<close> followed by the whole 32-character hexadecimal MD5 digest of
  \<open>b\<close> (the slice \<open>[:44]\<close> removes nothing), 34 characters in all.
\<close>

theorem upload_to_ipfs_ignores_filename:
  "upload_to_ipfs md5 b f1 = upload_to_ipfs md5 b f2
   \<and> upload_to_ipfs md5 b f1 = lit ''Qm'' @ hex_of_word (md5 b)
   \<and> length (hex_of_word (md5 b)) = 32
   \<and> length (upload_to_ipfs md5 b f1) = 34"
  by (simp add: upload_to_ipfs_def hash_new_def hash_update_def hash_hexdigest_def
      length_hex_of_word lit_def)

section \<open>Properties of contract creation\<close>

lemmas prog_defs = ret_def throw_def pbind_def try_except_def local_call_def perform_def
  logger_def show_message_def set_last_contract_def

lemma scan_logs_none:
  "(\<forall>l \<in> set logs. isl (decode l)) \<Longrightarrow> scan_logs decode logs = Inl creation_event_not_found"
  by (induction logs) (auto split: sum.splits)

lemma scan_logs_first:
  "\<forall>x \<in> set pre. isl (decode x) \<Longrightarrow> decode l = Inr a \<Longrightarrow>
   scan_logs decode (pre @ l # post) = Inr a"
  by (induction pre) (auto split: sum.splits)

lemma scan_logs_some:
  "\<not> (\<forall>l \<in> set logs. isl (decode l)) \<Longrightarrow> \<exists>a. scan_logs decode logs = Inr a"
  by (induction logs) (auto split: sum.splits)

lemma create_after_receipt:
  assumes "factory_address cfg = Some factory" and "factory \<noteq> []"
    and "from_key node private_key = Inr account"
    and "eth_contract node factory FACTORY_ABI = Inr ()"
    and "contract_function node factory
           (CreateSigningContract document_hash ipfs_cid signers sequential_signing title
              description) = Inr ()"
    and "get_transaction_count node account = Inr nonce"
    and "build_transaction node factory
           (CreateSigningContract document_hash ipfs_cid signers sequential_signing title
              description)
           \<lparr>tx_from = account, tx_nonce = nonce, tx_gas = 3000000,
            tx_gasPrice = to_wei_gwei 20\<rparr> = Inr txn"
    and "sign_transaction node txn private_key = Inr raw"
    and "send_raw_transaction node raw = Inr tx_hash"
    and "wait_for_transaction_receipt node tx_hash = Inr logs"
  shows "fst (create_signing_contract cfg node document_hash ipfs_cid signers private_key title
           description sequential_signing s) = scan_logs (process_log node factory) logs"
  using assms
  by (simp add: create_signing_contract_def prog_defs Let_def split: sum.splits)

text \<open>
  C1. When every step before the loop succeeds and the receipt carries \<open>logs\<close>,
  \<open>create_signing_contract\<close> raises the creation-event-not-found error exactly when no
  log of the receipt decodes as the creation event, and otherwise returns the contract
  address of the first log that decodes, whatever logs that fail to decode precede it
  and whatever logs follow it.
\<close>

theorem create_signing_contract_scans_logs:
  assumes "factory_address cfg = Some factory" and "factory \<noteq> []"
    and "from_key node private_key = Inr account"
    and "eth_contract node factory FACTORY_ABI = Inr ()"
    and "contract_function node factory
           (CreateSigningContract document_hash ipfs_cid signers sequential_signing title
              description) = Inr ()"
    and "get_transaction_count node account = Inr nonce"
    and "build_transaction node factory
           (CreateSigningContract document_hash ipfs_cid signers sequential_signing title
              description)
           \<lparr>tx_from = account, tx_nonce = nonce, tx_gas = 3000000,
            tx_gasPrice = to_wei_gwei 20\<rparr> = Inr txn"
    and "sign_transaction node txn private_key = Inr raw"
    and "send_raw_transaction node raw = Inr tx_hash"
    and "wait_for_transaction_receipt node tx_hash = Inr logs"
  shows "(fst (create_signing_contract cfg node document_hash ipfs_cid signers private_key title
             description sequential_signing s) = Inl creation_event_not_found
          \<longleftrightarrow> (\<forall>l \<in> set logs. isl (process_log node factory l)))
       \<and> (\<forall>pre l post a.
            logs = pre @ l # post \<and> (\<forall>x \<in> set pre. isl (process_log node factory x))
              \<and> process_log node factory l = Inr a
            \<longrightarrow> fst (create_signing_contract cfg node document_hash ipfs_cid signers private_key
                  title description sequential_signing s) = Inr a)"
proof -
  let ?r = "fst (create_signing_contract cfg node document_hash ipfs_cid signers private_key title
             description sequential_signing s)"
  let ?d = "process_log node factory"
  have r: "?r = scan_logs ?d logs"
    by (rule create_after_receipt [OF assms])
  have "?r = Inl creation_event_not_found \<longleftrightarrow> (\<forall>l \<in> set logs. isl (?d l))"
  proof
    assume "?r = Inl creation_event_not_found"
    then show "\<forall>l \<in> set logs. isl (?d l)"
      using scan_logs_some [of logs ?d] r by auto
  next
    assume "\<forall>l \<in> set logs. isl (?d l)"
    then show "?r = Inl creation_event_not_found"
      using scan_logs_none [of logs ?d] r by simp
  qed
  moreover have "\<forall>pre l post a.
      logs = pre @ l # post \<and> (\<forall>x \<in> set pre. isl (?d x)) \<and> ?d l = Inr a \<longrightarrow> ?r = Inr a"
    using scan_logs_first [of _ ?d] r by auto
  ultimately show ?thesis by blast
qed

theorem create_signing_contract_scans_logs_witness:
  "wait_for_transaction_receipt demo_chain [2] = Inr [0, 1]
   \<and> isl (process_log demo_chain (lit ''0xF'') 0)
   \<and> process_log demo_chain (lit ''0xF'') 1 = Inr (lit ''0xC'')
   \<and> fst (create_signing_contract demo_config demo_chain (lit ''0x00'') (lit ''Qm'')
           [lit ''0xA'', lit ''0xB''] (lit ''key'') (lit ''Deed'') (lit ''text'') False
           init_state) = Inr (lit ''0xC'')
   \<and> wait_for_transaction_receipt
        (demo_chain\<lparr>wait_for_transaction_receipt := \<lambda>h. Inr [0]\<rparr>) [2] = Inr [0]
   \<and> fst (create_signing_contract demo_config
           (demo_chain\<lparr>wait_for_transaction_receipt := \<lambda>h. Inr [0]\<rparr>)
           (lit ''0x00'') (lit ''Qm'')
           [lit ''0xA'', lit ''0xB''] (lit ''key'') (lit ''Deed'') (lit ''text'') False
           init_state) = Inl creation_event_not_found"
proof -
  let ?call = "CreateSigningContract (lit ''0x00'') (lit ''Qm'') [lit ''0xA'', lit ''0xB'']
                 False (lit ''Deed'') (lit ''text'')"
  let ?params = "\<lparr>tx_from = lit ''0xA'', tx_nonce = 0, tx_gas = 3000000,
                   tx_gasPrice = to_wei_gwei 20\<rparr>"
  let ?short = "demo_chain\<lparr>wait_for_transaction_receipt := \<lambda>h. Inr [0]\<rparr>"
  have h1: "factory_address demo_config = Some (lit ''0xF'')"
    and h2: "lit ''0xF'' \<noteq> []"
    by (simp_all add: demo_config_def lit_def)
  have d3: "from_key demo_chain (lit ''key'') = Inr (lit ''0xA'')"
    and d4: "eth_contract demo_chain (lit ''0xF'') FACTORY_ABI = Inr ()"
    and d5: "contract_function demo_chain (lit ''0xF'') ?call = Inr ()"
    and d6: "get_transaction_count demo_chain (lit ''0xA'') = Inr 0"
    and d7: "build_transaction demo_chain (lit ''0xF'') ?call ?params = Inr ()"
    and d8: "sign_transaction demo_chain () (lit ''key'') = Inr [1]"
    and d9: "send_raw_transaction demo_chain [1] = Inr [2]"
    and d10: "wait_for_transaction_receipt demo_chain [2] = Inr [0, 1]"
    by (simp_all add: demo_chain_def)
  have e3: "from_key ?short (lit ''key'') = Inr (lit ''0xA'')"
    and e4: "eth_contract ?short (lit ''0xF'') FACTORY_ABI = Inr ()"
    and e5: "contract_function ?short (lit ''0xF'') ?call = Inr ()"
    and e6: "get_transaction_count ?short (lit ''0xA'') = Inr 0"
    and e7: "build_transaction ?short (lit ''0xF'') ?call ?params = Inr ()"
    and e8: "sign_transaction ?short () (lit ''key'') = Inr [1]"
    and e9: "send_raw_transaction ?short [1] = Inr [2]"
    and e10: "wait_for_transaction_receipt ?short [2] = Inr [0]"
    by (simp_all add: demo_chain_def)
  have p0: "isl (process_log demo_chain (lit ''0xF'') 0)"
    and p1: "process_log demo_chain (lit ''0xF'') 1 = Inr (lit ''0xC'')"
    and q0: "\<forall>l \<in> set [0]. isl (process_log ?short (lit ''0xF'') l)"
    by (simp_all add: demo_chain_def)
  note found = create_signing_contract_scans_logs [OF h1 h2 d3 d4 d5 d6 d7 d8 d9 d10,
      of init_state, THEN conjunct2, rule_format, of "[0]" 1 "[]" "lit ''0xC''"]
  note missing = create_signing_contract_scans_logs [OF h1 h2 e3 e4 e5 e6 e7 e8 e9 e10,
      of init_state, THEN conjunct1, THEN iffD2, OF q0]
  have a: "fst (create_signing_contract demo_config demo_chain (lit ''0x00'') (lit ''Qm'')
           [lit ''0xA'', lit ''0xB''] (lit ''key'') (lit ''Deed'') (lit ''text'') False
           init_state) = Inr (lit ''0xC'')"
    using found p0 p1 by simp
  show ?thesis using a missing d10 e10 p0 p1 by simp
qed

text \<open>
  C8. In every run of \<open>create_signing_contract\<close> and of \<open>sign_document\<close>, from any
  state and whatever the node answers to any request (the receipt wait included), the
  requests the run adds to the trace contain at most one \<open>send_raw_transaction\<close>.
\<close>

theorem broadcast_at_most_once:
  "(\<exists>new. effects (snd (create_signing_contract cfg node document_hash ipfs_cid signers
                 private_key title description sequential_signing s)) = effects s @ new
          \<and> broadcasts new \<le> 1)
   \<and> (\<exists>new. effects (snd (sign_document node contract_address private_key metadata s))
                 = effects s @ new
          \<and> broadcasts new \<le> 1)"
  by (simp add: create_signing_contract_def sign_document_def prog_defs Let_def broadcasts_def
      is_broadcast_def split: option.splits sum.splits)

lemma create_not_configured:
  "\<not> factory_configured cfg \<Longrightarrow>
   create_signing_contract cfg node document_hash ipfs_cid signers private_key title
     description sequential_signing s
   = (Inl factory_not_configured,
      s\<lparr>logged := logged s @ [ErrorCreatingSigningContract factory_not_configured]\<rparr>)"
  by (auto simp: factory_configured_def create_signing_contract_def prog_defs
      split: option.splits)

text \<open>
  C7. When no factory address is configured, \<open>create_signing_contract\<close> raises the
  configuration error, logs it and makes no request at all (nothing is built, signed or
  broadcast); \<open>get_user_contracts\<close> returns the empty list and leaves the state as it
  was; and the create-contract handler ends normally, without any request.
\<close>

theorem no_factory_degrades:
  assumes "\<not> factory_configured cfg"
  shows "create_signing_contract cfg node document_hash ipfs_cid signers private_key title
           description sequential_signing s
         = (Inl factory_not_configured,
            s\<lparr>logged := logged s @ [ErrorCreatingSigningContract factory_not_configured]\<rparr>)
       \<and> get_user_contracts cfg node user_address s = (Inr [], s)
       \<and> (\<exists>s'. create_contract_clicked sha256 md5 cfg node uploaded_file initiator_key
                  entered title description sequential_signing s = (Inr (), s')
               \<and> effects s' = effects s)"
proof -
  have "get_user_contracts cfg node user_address s = (Inr [], s)"
    using assms
    by (auto simp: factory_configured_def get_user_contracts_def prog_defs split: option.splits)
  moreover have "\<exists>s'. create_contract_clicked sha256 md5 cfg node uploaded_file initiator_key
                  entered title description sequential_signing s = (Inr (), s')
               \<and> effects s' = effects s"
    by (simp add: create_contract_clicked_def create_not_configured [OF assms] prog_defs Let_def
        split: option.splits sum.splits prod.splits)
  ultimately show ?thesis
    using create_not_configured [OF assms] by simp
qed

theorem no_factory_degrades_witness:
  "\<not> factory_configured \<lparr>factory_address = None\<rparr>
   \<and> fst (create_signing_contract \<lparr>factory_address = None\<rparr> demo_chain (lit ''0x00'')
          (lit ''Qm'') [lit ''0xA''] (lit ''key'') (lit ''Deed'') (lit ''text'') False
          init_state) = Inl factory_not_configured
   \<and> effects (snd (create_signing_contract \<lparr>factory_address = None\<rparr> demo_chain
          (lit ''0x00'') (lit ''Qm'') [lit ''0xA''] (lit ''key'') (lit ''Deed'') (lit ''text'')
          False init_state)) = []
   \<and> get_user_contracts \<lparr>factory_address = None\<rparr> demo_chain (lit ''0xA'') init_state
       = (Inr [], init_state)"
proof -
  have h: "\<not> factory_configured \<lparr>factory_address = None\<rparr>"
    by (simp add: factory_configured_def)
  note t = no_factory_degrades [OF h, of demo_chain "lit ''0x00''" "lit ''Qm''" "[lit ''0xA'']"
      "lit ''key''" "lit ''Deed''" "lit ''text''" False init_state "lit ''0xA''"]
  show ?thesis using h t by (simp add: init_state_def)
qed

section \<open>Properties of the contract listing\<close>

lemma warned_addresses_append:
  "warned_addresses (xs @ ys) = warned_addresses xs @ warned_addresses ys"
  by (induction xs rule: warned_addresses.induct) simp_all

lemma get_contract_status_result:
  "\<exists>s'. get_contract_status node a s = (returned_status node a, s')
        \<and> warned_addresses (logged s') = warned_addresses (logged s)"
  by (simp add: returned_status_def get_contract_status_def prog_defs warned_addresses_append
      split: sum.splits)

lemma enrich_result:
  "\<exists>s'. warned_addresses (logged s') = warned_addresses (logged s)
        \<and> (case enrichment node factory a of
              Some entry \<Rightarrow> enrich node factory a s = (Inr entry, s')
            | None \<Rightarrow> (\<exists>e. enrich node factory a s = (Inl e, s')))"
proof (cases "call_getContractInfo node factory a")
  case (Inl e)
  then show ?thesis
    by (simp add: enrich_def enrichment_def prog_defs)
next
  case (Inr info)
  let ?s1 = "s\<lparr>effects := effects s @ [Call factory (GetContractInfo a)]\<rparr>"
  obtain s' where s': "get_contract_status node a ?s1 = (returned_status node a, s')"
    and w: "warned_addresses (logged s') = warned_addresses (logged ?s1)"
    using get_contract_status_result [of node a ?s1] by blast
  show ?thesis
  proof (cases "returned_status node a")
    case (Inl e)
    with Inr s' w show ?thesis
      by (auto simp: enrich_def enrichment_def prog_defs)
  next
    case r: (Inr st)
    with Inr s' w show ?thesis
      by (auto simp: enrich_def enrichment_def prog_defs)
  qed
qed

lemma enrich_loop_result:
  "\<exists>s'. enrich_loop node factory addrs acc s
          = (Inr (acc @ List.map_filter (enrichment node factory) addrs), s')
        \<and> warned_addresses (logged s')
          = warned_addresses (logged s) @ filter (\<lambda>a. enrichment node factory a = None) addrs"
proof (induction addrs arbitrary: acc s)
  case Nil
  then show ?case by (simp add: prog_defs List.map_filter_simps)
next
  case (Cons a addrs)
  obtain s1 where w1: "warned_addresses (logged s1) = warned_addresses (logged s)"
    and e1: "case enrichment node factory a of
              Some entry \<Rightarrow> enrich node factory a s = (Inr entry, s1)
            | None \<Rightarrow> (\<exists>e. enrich node factory a s = (Inl e, s1))"
    using enrich_result [of s node factory a] by blast
  show ?case
  proof (cases "enrichment node factory a")
    case None
    with e1 obtain e where e: "enrich node factory a s = (Inl e, s1)" by auto
    let ?s2 = "s1\<lparr>logged := logged s1 @ [WarningGettingInfo a e]\<rparr>"
    obtain s' where "enrich_loop node factory addrs acc ?s2
          = (Inr (acc @ List.map_filter (enrichment node factory) addrs), s')"
      and "warned_addresses (logged s')
          = warned_addresses (logged ?s2) @ filter (\<lambda>a. enrichment node factory a = None) addrs"
      using Cons.IH [of acc ?s2] by blast
    with None e w1 show ?thesis
      by (simp add: prog_defs List.map_filter_simps warned_addresses_append)
  next
    case (Some entry)
    with e1 have e: "enrich node factory a s = (Inr entry, s1)" by simp
    obtain s' where "enrich_loop node factory addrs (acc @ [entry]) s1
          = (Inr ((acc @ [entry]) @ List.map_filter (enrichment node factory) addrs), s')"
      and "warned_addresses (logged s')
          = warned_addresses (logged s1) @ filter (\<lambda>a. enrichment node factory a = None) addrs"
      using Cons.IH [of "acc @ [entry]" s1] by blast
    with Some e w1 show ?thesis
      by (simp add: prog_defs List.map_filter_simps)
  qed
qed


text \<open>
  C5. When the factory is configured and the index of the initiator enumerates \<open>addrs\<close>,
  \<open>get_user_contracts\<close> returns, in the order of \<open>addrs\<close>, exactly the entries of the
  addresses whose enrichment succeeds (the contract information and the status both
  obtained); a failing address does not end the listing: it is skipped and one warning
  naming it is logged, the warnings being those of the failing addresses, in order.
\<close>

theorem get_user_contracts_skips_failures:
  assumes "factory_address cfg = Some factory" and "factory \<noteq> []"
    and "eth_contract node factory FACTORY_ABI = Inr ()"
    and "call_getContractsByInitiator node factory user_address = Inr addrs"
  shows "fst (get_user_contracts cfg node user_address s)
           = Inr (List.map_filter (enrichment node factory) addrs)
       \<and> warned_addresses (logged (snd (get_user_contracts cfg node user_address s)))
           = warned_addresses (logged s) @ filter (\<lambda>a. enrichment node factory a = None) addrs"
proof -
  let ?s1 = "s\<lparr>effects := effects s @ [Call factory (GetContractsByInitiator user_address)]\<rparr>"
  obtain s' where l: "enrich_loop node factory addrs [] ?s1
          = (Inr ([] @ List.map_filter (enrichment node factory) addrs), s')"
    and w: "warned_addresses (logged s')
          = warned_addresses (logged ?s1) @ filter (\<lambda>a. enrichment node factory a = None) addrs"
    using enrich_loop_result [of node factory addrs "[]" ?s1] by blast
  have "get_user_contracts cfg node user_address s
          = (Inr (List.map_filter (enrichment node factory) addrs), s')"
    using assms l by (simp add: get_user_contracts_def prog_defs)
  with w show ?thesis by simp
qed

lemma demo_returned_status:
  "returned_status demo_chain a =
     Inr \<lparr>s_signatures = [], s_is_fully_signed = False,
          s_required_signers = [lit ''0xA'', lit ''0xB''], s_signed_count = 0,
          s_total_signers = 2, s_status = lit ''INITIATED'', s_document_hash = lit ''0x00'',
          s_ipfs_cid = lit ''Qm''\<rparr>"
  by (simp add: returned_status_def get_contract_status_def prog_defs demo_chain_def
      status_name_def status_names_def py_index_def)

lemma demo_contract_info:
  "call_getContractInfo demo_chain f a =
     (if a = lit ''0x2'' then Inl (Exc ''ContractLogicError'' [])
      else Inr \<lparr>info_0 = a, info_1 = lit ''0x00'', info_2 = lit ''Qm'',
                info_3 = lit ''0xA'', info_4 = 1700000000, info_5 = True,
                info_6 = lit ''Deed''\<rparr>)"
  by (simp add: demo_chain_def)

lemma demo_addresses_differ:
  "lit ''0x1'' \<noteq> lit ''0x2''" "lit ''0x3'' \<noteq> lit ''0x2''"
  by (simp_all add: lit_def)

theorem get_user_contracts_skips_failures_witness:
  "call_getContractsByInitiator demo_chain (lit ''0xF'') (lit ''0xA'')
     = Inr [lit ''0x1'', lit ''0x2'', lit ''0x3'']
   \<and> isl (call_getContractInfo demo_chain (lit ''0xF'') (lit ''0x2''))
   \<and> map c_address (projr (fst (get_user_contracts demo_config demo_chain (lit ''0xA'')
        init_state))) = [lit ''0x1'', lit ''0x3'']
   \<and> map c_progress (projr (fst (get_user_contracts demo_config demo_chain (lit ''0xA'')
        init_state))) = [lit ''0/2'', lit ''0/2'']
   \<and> warned_addresses (logged (snd (get_user_contracts demo_config demo_chain (lit ''0xA'')
        init_state))) = [lit ''0x2'']"
proof -
  have h1: "factory_address demo_config = Some (lit ''0xF'')"
    and h2: "lit ''0xF'' \<noteq> []"
    by (simp_all add: demo_config_def lit_def)
  have h3: "eth_contract demo_chain (lit ''0xF'') FACTORY_ABI = Inr ()"
    and h4: "call_getContractsByInitiator demo_chain (lit ''0xF'') (lit ''0xA'')
               = Inr [lit ''0x1'', lit ''0x2'', lit ''0x3'']"
    and h5: "isl (call_getContractInfo demo_chain (lit ''0xF'') (lit ''0x2''))"
    by (simp_all add: demo_chain_def)
  have e1: "enrichment demo_chain (lit ''0xF'') (lit ''0x1'') \<noteq> None"
    and e2: "enrichment demo_chain (lit ''0xF'') (lit ''0x2'') = None"
    and e3: "enrichment demo_chain (lit ''0xF'') (lit ''0x3'') \<noteq> None"
    by (simp_all add: enrichment_def demo_returned_status demo_contract_info
        demo_addresses_differ)
  have c1: "map_option c_address (enrichment demo_chain (lit ''0xF'') (lit ''0x1''))
              = Some (lit ''0x1'')"
    and c3: "map_option c_address (enrichment demo_chain (lit ''0xF'') (lit ''0x3''))
              = Some (lit ''0x3'')"
    and p1: "map_option c_progress (enrichment demo_chain (lit ''0xF'') (lit ''0x1''))
              = Some (lit ''0/2'')"
    and p3: "map_option c_progress (enrichment demo_chain (lit ''0xF'') (lit ''0x3''))
              = Some (lit ''0/2'')"
    by (simp_all add: enrichment_def demo_returned_status demo_contract_info
        demo_addresses_differ make_entry_def py_str_int_def nat_digits.simps)
      (simp_all add: lit_def)
  note t = get_user_contracts_skips_failures [OF h1 h2 h3 h4, of init_state]
  show ?thesis
    using t h4 h5 e1 e2 e3 c1 c3 p1 p3
    by (auto simp: List.map_filter_simps init_state_def)
qed

lemma enrich_loop_returns:
  "\<exists>contracts s'. enrich_loop node factory addrs acc s = (Inr contracts, s')"
  using enrich_loop_result [of node factory addrs acc s] by blast

text \<open>
  C10. \<open>get_user_contracts\<close> never raises: from every state, whatever the node answers,
  it returns a list. If the enumeration of the initiator's contracts itself fails, the
  error is logged and the empty list is returned, which is also what an initiator without
  contracts gets.
\<close>

theorem get_user_contracts_never_raises:
  "(\<exists>contracts. fst (get_user_contracts cfg node user_address s) = Inr contracts)
   \<and> (factory_address cfg = Some factory \<and> factory \<noteq> []
        \<and> eth_contract node factory FACTORY_ABI = Inr ()
        \<and> call_getContractsByInitiator node factory user_address = Inl e
      \<longrightarrow> get_user_contracts cfg node user_address s
            = (Inr [],
               s\<lparr>effects := effects s @ [Call factory (GetContractsByInitiator user_address)],
                 logged := logged s @ [ErrorGettingUserContracts e]\<rparr>)
          \<and> fst (get_user_contracts cfg
                 (node\<lparr>call_getContractsByInitiator := \<lambda>f u. Inr []\<rparr>) user_address s)
              = Inr [])"
proof -
  have "\<exists>contracts. fst (get_user_contracts cfg node user_address s) = Inr contracts"
  proof (cases "factory_address cfg")
    case None
    then show ?thesis by (simp add: get_user_contracts_def prog_defs)
  next
    case (Some factory)
    show ?thesis
    proof (cases "call_getContractsByInitiator node factory user_address")
      case (Inl e)
      with Some show ?thesis
        by (simp add: get_user_contracts_def prog_defs split: sum.splits)
    next
      case (Inr addrs)
      let ?s1 = "s\<lparr>effects := effects s @ [Call factory (GetContractsByInitiator user_address)]\<rparr>"
      obtain contracts s' where
        "enrich_loop node factory addrs [] ?s1 = (Inr contracts, s')"
        using enrich_loop_returns [of node factory addrs "[]" ?s1] by blast
      with Some Inr show ?thesis
        by (simp add: get_user_contracts_def prog_defs split: sum.splits)
    qed
  qed
  then show ?thesis
    by (auto simp: get_user_contracts_def prog_defs)
qed

theorem get_user_contracts_never_raises_witness:
  "call_getContractsByInitiator
     (demo_chain\<lparr>call_getContractsByInitiator := \<lambda>f u. Inl (Exc ''ConnectionError'' [])\<rparr>)
     (lit ''0xF'') (lit ''0xA'') = Inl (Exc ''ConnectionError'' [])
   \<and> get_user_contracts demo_config
       (demo_chain\<lparr>call_getContractsByInitiator := \<lambda>f u. Inl (Exc ''ConnectionError'' [])\<rparr>)
       (lit ''0xA'') init_state
     = (Inr [],
        init_state\<lparr>effects := [Call (lit ''0xF'') (GetContractsByInitiator (lit ''0xA''))],
          logged := [ErrorGettingUserContracts (Exc ''ConnectionError'' [])]\<rparr>)"
proof -
  let ?down =
    "demo_chain\<lparr>call_getContractsByInitiator := \<lambda>f u. Inl (Exc ''ConnectionError'' [])\<rparr>"
  have h: "factory_address demo_config = Some (lit ''0xF'') \<and> lit ''0xF'' \<noteq> []
        \<and> eth_contract ?down (lit ''0xF'') FACTORY_ABI = Inr ()
        \<and> call_getContractsByInitiator ?down (lit ''0xF'') (lit ''0xA'')
            = Inl (Exc ''ConnectionError'' [])"
    by (simp add: demo_config_def demo_chain_def lit_def)
  note t = get_user_contracts_never_raises [of demo_config ?down "lit ''0xA''" init_state
      "lit ''0xF''" "Exc ''ConnectionError'' []", THEN conjunct2, THEN mp, OF h, THEN conjunct1]
  show ?thesis using t h by (simp add: init_state_def)
qed

section \<open>Properties of the status snapshot\<close>

text \<open>
  C3, as amended. When the reads of \<open>get_contract_status\<close> succeed and the status code is
  not negative, the snapshot is returned and its status is \<open>INITIATED\<close>, \<open>IN_PROGRESS\<close>,
  \<open>COMPLETED\<close> or \<open>CANCELLED\<close> for the codes 0 to 3 and \<open>UNKNOWN\<close> for every greater
  code.
\<close>

theorem known_status_codes:
  assumes "eth_contract node a SIGNER_ABI = Inr ()"
    and "call_getSignatures node a = Inr sigs"
    and "call_isFullySigned node a = Inr full"
    and "call_getRequiredSigners node a = Inr required"
    and "call_getSigningProgress node a = Inr progress"
    and "call_status node a = Inr code"
    and "call_documentHash node a = Inr dh"
    and "call_ipfsCid node a = Inr cid"
    and "0 \<le> code"
  shows "\<exists>snap. fst (get_contract_status node a s) = Inr snap
           \<and> s_status snap =
               (if code = 0 then lit ''INITIATED''
                else if code = 1 then lit ''IN_PROGRESS''
                else if code = 2 then lit ''COMPLETED''
                else if code = 3 then lit ''CANCELLED''
                else lit ''UNKNOWN'')"
proof -
  have n: "status_name code =
      Inr (if code = 0 then lit ''INITIATED''
           else if code = 1 then lit ''IN_PROGRESS''
           else if code = 2 then lit ''COMPLETED''
           else if code = 3 then lit ''CANCELLED''
           else lit ''UNKNOWN'')"
  proof (cases "code < 4")
    case True
    with \<open>0 \<le> code\<close> have "code = 0 \<or> code = 1 \<or> code = 2 \<or> code = 3" by arith
    then show ?thesis
      by (auto simp: status_name_def status_names_def py_index_def)
  next
    case False
    then show ?thesis
      by (simp add: status_name_def status_names_def)
  qed
  show ?thesis
    using assms(1-8) n by (simp add: get_contract_status_def prog_defs)
qed

theorem known_status_codes_witness:
  "call_status (demo_chain\<lparr>call_status := \<lambda>a. Inr 7\<rparr>) (lit ''0xC'') = Inr 7
   \<and> (0::int) \<le> 7
   \<and> map_sum id s_status
        (fst (get_contract_status (demo_chain\<lparr>call_status := \<lambda>a. Inr 7\<rparr>) (lit ''0xC'')
           init_state)) = Inr (lit ''UNKNOWN'')"
proof -
  let ?c = "demo_chain\<lparr>call_status := \<lambda>a. Inr 7\<rparr>"
  have h1: "eth_contract ?c (lit ''0xC'') SIGNER_ABI = Inr ()"
    and h2: "call_getSignatures ?c (lit ''0xC'') = Inr []"
    and h3: "call_isFullySigned ?c (lit ''0xC'') = Inr False"
    and h4: "call_getRequiredSigners ?c (lit ''0xC'') = Inr [lit ''0xA'', lit ''0xB'']"
    and h5: "call_getSigningProgress ?c (lit ''0xC'') = Inr (0, 2)"
    and h6: "call_status ?c (lit ''0xC'') = Inr 7"
    and h7: "call_documentHash ?c (lit ''0xC'') = Inr (lit ''0x00'')"
    and h8: "call_ipfsCid ?c (lit ''0xC'') = Inr (lit ''Qm'')"
    by (simp_all add: demo_chain_def)
  have h9: "(0::int) \<le> 7" by simp
  note t = known_status_codes [OF h1 h2 h3 h4 h5 h6 h7 h8 h9, of init_state]
  show ?thesis using t h6 by auto
qed

text \<open>
  The claim C3 as stated fails for negative codes: the code \<open>-1\<close> is below the length of
  the table and indexes it from the end, giving \<open>CANCELLED\<close>, and the code \<open>-5\<close> raises
  \<open>IndexError\<close>.
\<close>

theorem negative_status_code_counterexample:
  "map_sum id s_status
     (fst (get_contract_status (demo_chain\<lparr>call_status := \<lambda>a. Inr (- 1)\<rparr>) (lit ''0xC'')
        init_state)) = Inr (lit ''CANCELLED'')
   \<and> lit ''CANCELLED'' \<noteq> lit ''UNKNOWN''
   \<and> fst (get_contract_status (demo_chain\<lparr>call_status := \<lambda>a. Inr (- 5)\<rparr>) (lit ''0xC'')
        init_state) = Inl (Exc ''IndexError'' (lit ''list index out of range''))"
  by (simp add: get_contract_status_def prog_defs demo_chain_def status_name_def
      status_names_def py_index_def lit_def)

text \<open>
  C4, as amended. A snapshot returned by \<open>get_contract_status\<close> carries the values of
  \<open>getSignatures\<close>, \<open>isFullySigned\<close> and \<open>getSigningProgress\<close> unchanged, so it satisfies
  the invariant exactly when those values satisfy the same relations; the function does
  not check them.
\<close>

theorem snapshot_copies_getters:
  assumes "fst (get_contract_status node a s) = Inr snap"
  shows "\<exists>sigs full progress.
           call_getSignatures node a = Inr sigs
         \<and> call_isFullySigned node a = Inr full
         \<and> call_getSigningProgress node a = Inr progress
         \<and> s_signatures snap = sigs
         \<and> s_is_fully_signed snap = full
         \<and> (s_signed_count snap, s_total_signers snap) = progress
         \<and> snapshot_invariant snap = getters_consistent sigs full progress"
  using assms
  by (auto simp: get_contract_status_def prog_defs snapshot_invariant_def
      getters_consistent_def split: sum.splits)

theorem snapshot_copies_getters_witness:
  "fst (get_contract_status demo_chain (lit ''0xC'') init_state)
     = Inr \<lparr>s_signatures = [], s_is_fully_signed = False,
            s_required_signers = [lit ''0xA'', lit ''0xB''], s_signed_count = 0,
            s_total_signers = 2, s_status = lit ''INITIATED'', s_document_hash = lit ''0x00'',
            s_ipfs_cid = lit ''Qm''\<rparr>
   \<and> getters_consistent [] False (0, 2)
   \<and> snapshot_invariant \<lparr>s_signatures = [], s_is_fully_signed = False,
            s_required_signers = [lit ''0xA'', lit ''0xB''], s_signed_count = 0,
            s_total_signers = 2, s_status = lit ''INITIATED'', s_document_hash = lit ''0x00'',
            s_ipfs_cid = lit ''Qm''\<rparr>"
proof -
  let ?snap = "\<lparr>s_signatures = [], s_is_fully_signed = False,
            s_required_signers = [lit ''0xA'', lit ''0xB''], s_signed_count = 0,
            s_total_signers = 2, s_status = lit ''INITIATED'', s_document_hash = lit ''0x00'',
            s_ipfs_cid = lit ''Qm''\<rparr>"
  have h: "fst (get_contract_status demo_chain (lit ''0xC'') init_state) = Inr ?snap"
    using demo_returned_status [of "lit ''0xC''"] by (simp add: returned_status_def)
  have g: "getters_consistent [] False (0, 2)"
    by (simp add: getters_consistent_def)
  have c: "call_getSignatures demo_chain (lit ''0xC'') = Inr []"
      "call_isFullySigned demo_chain (lit ''0xC'') = Inr False"
      "call_getSigningProgress demo_chain (lit ''0xC'') = Inr (0, 2)"
    by (simp_all add: demo_chain_def)
  note t = snapshot_copies_getters [OF h]
  have "snapshot_invariant ?snap" using t g c by auto
  with h g show ?thesis by simp
qed

text \<open>
  The claim C4 as stated fails: with no signature, a progress of \<open>(2, 1)\<close> and the
  fully-signed flag set, the snapshot returned breaks each of the three relations.
\<close>

theorem snapshot_invariant_counterexample:
  "(case fst (get_contract_status
               (demo_chain\<lparr>call_isFullySigned := \<lambda>a. Inr True,
                  call_getSigningProgress := \<lambda>a. Inr (2, 1)\<rparr>) (lit ''0xC'') init_state) of
      Inl e \<Rightarrow> False
    | Inr snap \<Rightarrow>
        s_signed_count snap \<noteq> int (length (s_signatures snap))
        \<and> \<not> s_signed_count snap \<le> s_total_signers snap
        \<and> s_is_fully_signed snap \<noteq> (s_signed_count snap = s_total_signers snap)
        \<and> \<not> snapshot_invariant snap)"
  by (simp add: get_contract_status_def prog_defs demo_chain_def status_name_def
      status_names_def py_index_def snapshot_invariant_def)

section \<open>Properties of the required signers\<close>

lemma dict_keys_setitem:
  "dict_keys (dict_setitem d k v) =
     (if k \<in> set (dict_keys d) then dict_keys d else dict_keys d @ [k])"
proof (induction d)
  case Nil
  then show ?case by (simp add: dict_keys_def)
next
  case (Cons p d)
  obtain k' v' where p: "p = (k', v')" by (cases p)
  show ?case
  proof (cases "k' = k")
    case True
    with p show ?thesis by (simp add: dict_keys_def)
  next
    case False
    with p Cons show ?thesis by (simp add: dict_keys_def)
  qed
qed

lemma first_occurrences_seen:
  "set seen = set seen' \<Longrightarrow> first_occurrences seen xs = first_occurrences seen' xs"
proof (induction xs arbitrary: seen seen')
  case Nil
  then show ?case by simp
next
  case (Cons x xs)
  have a: "first_occurrences (x # seen) xs = first_occurrences (x # seen') xs"
    using Cons.prems by (intro Cons.IH) simp
  have b: "first_occurrences seen xs = first_occurrences seen' xs"
    using Cons.prems by (rule Cons.IH)
  from a b Cons.prems show ?case by simp
qed

lemma dict_keys_fold:
  "dict_keys (foldl (\<lambda>d k. dict_setitem d k ()) d ks)
     = dict_keys d @ first_occurrences (dict_keys d) ks"
proof (induction ks arbitrary: d)
  case Nil
  then show ?case by simp
next
  case (Cons k ks)
  show ?case
  proof (cases "k \<in> set (dict_keys d)")
    case True
    then show ?thesis by (simp add: Cons.IH dict_keys_setitem)
  next
    case False
    have "first_occurrences (dict_keys d @ [k]) ks = first_occurrences (k # dict_keys d) ks"
      by (rule first_occurrences_seen) auto
    with False show ?thesis by (simp add: Cons.IH dict_keys_setitem)
  qed
qed

lemma dict_keys_fromkeys: "dict_keys (dict_fromkeys ks) = first_occurrences [] ks"
  using dict_keys_fold [of "[]" ks] by (simp add: dict_fromkeys_def dict_keys_def)

lemma py_strip_truthy: "py_strip s \<noteq> [] \<longleftrightarrow> (\<exists>c \<in> set s. \<not> py_isspace c)"
proof
  assume "py_strip s \<noteq> []"
  then have "dropWhile py_isspace (rev (dropWhile py_isspace s)) \<noteq> []"
    by (simp add: py_strip_def)
  then obtain c where "c \<in> set (dropWhile py_isspace s)" and "\<not> py_isspace c"
    by (auto simp: dropWhile_eq_Nil_conv)
  then show "\<exists>c \<in> set s. \<not> py_isspace c"
    by (auto dest: set_dropWhileD)
next
  assume "\<exists>c \<in> set s. \<not> py_isspace c"
  then have n: "dropWhile py_isspace s \<noteq> []"
    by (auto simp: dropWhile_eq_Nil_conv)
  then have "\<not> py_isspace (hd (dropWhile py_isspace s))"
    by (rule hd_dropWhile)
  moreover from n have "hd (dropWhile py_isspace s) \<in> set (rev (dropWhile py_isspace s))"
    by simp
  ultimately have "dropWhile py_isspace (rev (dropWhile py_isspace s)) \<noteq> []"
    by (auto simp: dropWhile_eq_Nil_conv)
  then show "py_strip s \<noteq> []"
    by (simp add: py_strip_def)
qed

lemma set_first_occurrences: "set (first_occurrences seen xs) = set xs - set seen"
  by (induction xs arbitrary: seen) auto

lemma distinct_first_occurrences: "distinct (first_occurrences seen xs)"
  by (induction xs arbitrary: seen) (auto simp: set_first_occurrences)

lemma required_signers_eq:
  "required_signers_of initiator signers
     = first_occurrences [] (initiator # filter (\<lambda>s. \<exists>c \<in> set s. \<not> py_isspace c) signers)"
  by (simp add: required_signers_of_def dict_keys_fromkeys py_strip_truthy)



lemma count_first_occurrences:
  "count_list (first_occurrences seen xs) x = (if x \<in> set xs - set seen then 1 else 0)"
  by (induction xs arbitrary: seen) auto

lemma hd_first_occurrences: "hd (first_occurrences [] (x # xs)) = x"
  by simp

lemma create_submits:
  "\<exists>new. effects (snd (create_signing_contract cfg node document_hash ipfs_cid signers
              private_key title description sequential_signing s)) = effects s @ new
        \<and> (submitted_signers new = [] \<or> submitted_signers new = [signers])"
  by (simp add: create_signing_contract_def prog_defs Let_def
      split: option.splits sum.splits)

lemma clicked_submits:
  "\<exists>new. effects (snd (create_contract_clicked sha256 md5 cfg node uploaded_file initiator_key
              entered title description sequential_signing s)) = effects s @ new
        \<and> (submitted_signers new = []
            \<or> (\<exists>a. from_key node initiator_key = Inr a
                  \<and> submitted_signers new = [required_signers_of a entered]))"
proof (cases "from_key node initiator_key")
  case (Inl e)
  then show ?thesis
    by (simp add: create_contract_clicked_def prog_defs Let_def split: option.splits)
next
  case (Inr a)
  let ?create = "create_signing_contract cfg node
      (hash_document sha256 (snd (the uploaded_file)))
      (upload_to_ipfs md5 (snd (the uploaded_file)) (fst (the uploaded_file)))
      (required_signers_of a entered) initiator_key title description sequential_signing s"
  obtain new where n: "effects (snd ?create) = effects s @ new"
    and m: "submitted_signers new = [] \<or> submitted_signers new = [required_signers_of a entered]"
    using create_submits by blast
  obtain r s1 where c: "?create = (r, s1)" by (cases ?create)
  with n have n1: "effects s1 = effects s @ new" by simp
  show ?thesis
    using Inr c n1 m
    by (cases uploaded_file; cases r)
      (auto simp: create_contract_clicked_def prog_defs Let_def)
qed

text \<open>
  C2, as amended. The list of required signers is the initiator's address followed by the
  caller-supplied strings that hold a character other than whitespace (kept as typed),
  reduced to the first occurrence of each string: the initiator comes first and exactly
  once, no string occurs twice, and nothing else is added. Whenever the create-contract
  handler reaches \<open>createSigningContract\<close>, it does so once and with this list.
\<close>

theorem required_signers_deduplicated:
  "required_signers_of initiator signers
     = first_occurrences [] (initiator # filter (\<lambda>s. \<exists>c \<in> set s. \<not> py_isspace c) signers)
   \<and> hd (required_signers_of initiator signers) = initiator
   \<and> distinct (required_signers_of initiator signers)
   \<and> count_list (required_signers_of initiator signers) initiator = 1
   \<and> set (required_signers_of initiator signers)
       = insert initiator {s \<in> set signers. \<exists>c \<in> set s. \<not> py_isspace c}
   \<and> (\<exists>new. effects (snd (create_contract_clicked sha256 md5 cfg node uploaded_file
                 initiator_key signers title description sequential_signing s))
               = effects s @ new
          \<and> (submitted_signers new = []
              \<or> (\<exists>a. from_key node initiator_key = Inr a
                    \<and> submitted_signers new = [required_signers_of a signers])))"
proof -
  let ?kept = "filter (\<lambda>s. \<exists>c \<in> set s. \<not> py_isspace c) signers"
  have e: "required_signers_of initiator signers = first_occurrences [] (initiator # ?kept)"
    by (rule required_signers_eq)
  have h: "hd (required_signers_of initiator signers) = initiator"
    unfolding e by (rule hd_first_occurrences)
  have d: "distinct (required_signers_of initiator signers)"
    unfolding e by (rule distinct_first_occurrences)
  have c: "count_list (required_signers_of initiator signers) initiator = 1"
    unfolding e by (simp add: count_first_occurrences)
  have m: "set (required_signers_of initiator signers)
       = insert initiator {s \<in> set signers. \<exists>c \<in> set s. \<not> py_isspace c}"
    unfolding e set_first_occurrences by auto
  have k: "\<exists>new. effects (snd (create_contract_clicked sha256 md5 cfg node uploaded_file
                 initiator_key signers title description sequential_signing s))
               = effects s @ new
          \<and> (submitted_signers new = []
              \<or> (\<exists>a. from_key node initiator_key = Inr a
                    \<and> submitted_signers new = [required_signers_of a signers]))"
    by (rule clicked_submits)
  show ?thesis
    apply (insert e h d c m k)
    apply (intro conjI)
         apply assumption+
    done
qed

text \<open>The caller's input \<open>[A, B, A, C]\<close> with the initiator \<open>A\<close> gives \<open>[A, B, C]\<close>.\<close>

theorem required_signers_deduplicated_example:
  "required_signers_of (lit ''0xA'') [lit ''0xA'', lit ''0xB'', lit ''0xA'', lit ''0xC'']
     = [lit ''0xA'', lit ''0xB'', lit ''0xC'']"
  using required_signers_deduplicated [of "lit ''0xA''"
      "[lit ''0xA'', lit ''0xB'', lit ''0xA'', lit ''0xC'']", THEN conjunct1]
  by (simp add: lit_def py_isspace_def)

lemma demo_create_submitted:
  "submitted_signers (effects (snd (create_signing_contract demo_config demo_chain dh cid rs k t d q
      init_state))) = [rs]"
  by (simp add: create_signing_contract_def prog_defs Let_def demo_config_def demo_chain_def
      init_state_def lit_def)

lemma clicked_effects:
  assumes "uploaded_file = Some (name, content)" and "initiator_key \<noteq> []"
    and "list_ex (\<lambda>s. s \<noteq> []) entered" and "from_key node initiator_key = Inr a"
  shows "effects (snd (create_contract_clicked sha256 md5 cfg node uploaded_file initiator_key
            entered title description sequential_signing s))
         = effects (snd (create_signing_contract cfg node (hash_document sha256 content)
            (upload_to_ipfs md5 content name) (required_signers_of a entered) initiator_key
            title description sequential_signing s))"
proof -
  let ?create = "create_signing_contract cfg node (hash_document sha256 content)
            (upload_to_ipfs md5 content name) (required_signers_of a entered) initiator_key
            title description sequential_signing s"
  obtain r s1 where c: "?create = (r, s1)" by (cases ?create)
  show ?thesis
    using assms c
    by (cases r) (simp_all add: create_contract_clicked_def prog_defs Let_def)
qed

text \<open>
  The claim C2 as stated fails for a caller-supplied string of whitespace: it is not
  empty, the handler accepts it (\<open>any\<close> holds) and \<open>s.strip()\<close> drops it, so the list
  submitted is the initiator alone.
\<close>

theorem blank_signer_counterexample:
  "required_signers_of (lit ''0xA'') [lit '' ''] = [lit ''0xA'']
   \<and> spec_required_signers (lit ''0xA'') [lit '' ''] = [lit ''0xA'', lit '' '']
   \<and> submitted_signers (effects (snd (create_contract_clicked (\<lambda>b. 0) (\<lambda>b. 0) demo_config
        demo_chain (Some (lit ''deed.pdf'', [])) (lit ''key'') [lit '' ''] (lit ''Deed'')
        (lit ''text'') False init_state)))
       = [[lit ''0xA'']]"
proof -
  have a: "required_signers_of (lit ''0xA'') [lit '' ''] = [lit ''0xA'']"
    by (simp add: required_signers_of_def dict_fromkeys_def dict_keys_def py_strip_def
        py_isspace_def lit_def)
  have b: "spec_required_signers (lit ''0xA'') [lit '' ''] = [lit ''0xA'', lit '' '']"
    by (simp add: spec_required_signers_def lit_def)
  have k: "lit ''key'' \<noteq> []" and n: "list_ex (\<lambda>s. s \<noteq> []) [lit '' '']"
    by (simp_all add: lit_def)
  have f: "from_key demo_chain (lit ''key'') = Inr (lit ''0xA'')"
    by (simp add: demo_chain_def)
  have "submitted_signers (effects (snd (create_contract_clicked (\<lambda>b. 0) (\<lambda>b. 0) demo_config
        demo_chain (Some (lit ''deed.pdf'', [])) (lit ''key'') [lit '' ''] (lit ''Deed'')
        (lit ''text'') False init_state)))
       = [required_signers_of (lit ''0xA'') [lit '' '']]"
    unfolding clicked_effects [OF refl k n f] by (rule demo_create_submitted)
  with a b show ?thesis by simp
qed

end
